theory Spec2Isabelle
  imports Main "HOL-Library.Char_ord" "HOL-Library.List_Lexorder"
begin

section \<open>Data model (src/src/types.ts and the interfaces of src/src/App.tsx)\<close>

text \<open>
  The TypeScript unions of string literals become datatypes. A field of type
  \<open>T | null\<close>, an optional field and a field of a \<open>Partial<...>\<close> row become
  \<open>T option\<close>: the code only ever compares such a field with a string or tests its
  truthiness, and \<open>null\<close> and \<open>undefined\<close> behave alike under both.
\<close>

datatype role = Admin | Staff | Client

datatype status = Not_started | In_progress | On_hold | Completed | Cancelled

datatype event_type = INSERT | UPDATE | DELETE

datatype nav_page = Dashboard | Clients | Reports

record Profile =
  p_id :: string
  p_email :: string
  p_full_name :: "string option"
  p_role :: role

text \<open>
  Of the twenty columns of an order the functions below read \<open>id\<close>, \<open>order_code\<close>,
  \<open>status\<close> and \<open>client_id\<close>; \<open>title\<close> stands for the columns that are only carried along.
\<close>

record Order =
  o_id :: string
  o_order_code :: string
  o_title :: string
  o_status :: status
  o_client_id :: "string option"

text \<open>\<open>interface AppNotification\<close>, App.tsx lines 19-26.\<close>

record AppNotification =
  n_id :: string
  n_title :: string
  n_message :: string
  n_created_at :: string
  n_read :: bool
  n_order_id :: "string option"

text \<open>
  The row images of a change event (\<open>payload.old\<close>, \<open>payload.new\<close> cast to
  \<open>Partial<Order>\<close>, \<open>Partial<Comment>\<close>, \<open>Partial<OrderFile>\<close>): every field may be
  missing. Only the fields the callbacks read are kept.
\<close>

record partial_order =
  po_id :: "string option"
  po_status :: "status option"
  po_client_id :: "string option"

record order_payload =
  eventType :: event_type
  old_row :: partial_order
  new_row :: partial_order

record partial_comment =
  pc_id :: "string option"
  pc_order_id :: "string option"
  pc_author_id :: "string option"

record partial_file =
  pf_id :: "string option"
  pf_order_id :: "string option"
  pf_uploaded_by :: "string option"
  pf_file_name :: "string option"

text \<open>
  The rows of the three pull queries of \<open>syncEvents\<close>, with the columns each query
  selects: \<open>id,status,client_id\<close>; \<open>id,order_id,author_id,created_at\<close>;
  \<open>id,order_id,uploaded_by,file_name,created_at\<close>.
\<close>

record order_row =
  or_id :: string
  or_status :: status
  or_client_id :: "string option"

record comment_row =
  cr_id :: string
  cr_order_id :: string
  cr_author_id :: "string option"
  cr_created_at :: string

record file_row =
  fr_id :: string
  fr_order_id :: string
  fr_uploaded_by :: "string option"
  fr_file_name :: "string option"
  fr_created_at :: string

text \<open>
  The mutable references of the component (\<open>useRef\<close>, App.tsx lines 223-229) that the
  realtime callbacks and \<open>syncEvents\<close> read and write.
\<close>

record refs =
  ordersRef :: "Order list"
  profilesByIdRef :: "string \<rightharpoonup> Profile"
  knownCommentIdsRef :: "string set"
  knownFileIdsRef :: "string set"
  orderStatusMapRef :: "string \<rightharpoonup> status"
  lastCommentSeenAtRef :: string
  lastFileSeenAtRef :: string

text \<open>
  One invocation \<open>pushNotification(title, message, orderId)\<close>. A callback returns the
  invocations it makes, in order, beside the updated references: the callbacks never read
  the inbox, they reach it through \<open>pushNotification\<close> alone.
\<close>

record notify_call =
  nc_title :: string
  nc_message :: string
  nc_order_id :: "string option"

text \<open>The React state that \<open>openNotification\<close> reads and sets.\<close>

record ui_state =
  notifications :: "AppNotification list"
  orders :: "Order list"
  orders_ref :: "Order list"
  selectedPage :: nav_page
  selectedOrderId :: "string option"
  sidebarOpen :: bool
  isNotificationOpen :: bool

section \<open>Helpers\<close>

text \<open>JavaScript truthiness of a possibly missing string: present and not empty.\<close>

fun truthy :: "string option \<Rightarrow> bool" where
  "truthy None = False"
| "truthy (Some s) = (s \<noteq> [])"

text \<open>\<open>STATUS_LABELS\<close>, App.tsx lines 54-60.\<close>

fun STATUS_LABELS :: "status \<Rightarrow> string" where
  "STATUS_LABELS Not_started = ''Not Started''"
| "STATUS_LABELS In_progress = ''In Progress''"
| "STATUS_LABELS On_hold = ''On Hold''"
| "STATUS_LABELS Completed = ''Completed''"
| "STATUS_LABELS Cancelled = ''Cancelled''"

text \<open>
  \<open>getOrderCode\<close>, App.tsx lines 345-348: the code of the loaded order with that id, else
  the first eight characters of the id.
\<close>

definition getOrderCode :: "Order list \<Rightarrow> string \<Rightarrow> string" where
  "getOrderCode os orderId =
     (case find (\<lambda>ord. o_id ord = orderId) os of
        Some found \<Rightarrow> o_order_code found
      | None \<Rightarrow> take 8 orderId)"

text \<open>\<open>Array.prototype.forEach\<close> with a callback that updates the references.\<close>

fun forEach :: "('a \<Rightarrow> refs \<Rightarrow> notify_call list \<times> refs) \<Rightarrow> 'a list \<Rightarrow> refs
    \<Rightarrow> notify_call list \<times> refs" where
  "forEach f [] r = ([], r)"
| "forEach f (x # xs) r =
     (case f x r of (cs, r') \<Rightarrow>
        (case forEach f xs r' of (cs', r'') \<Rightarrow> (cs @ cs', r'')))"

section \<open>Notification inbox (App.tsx lines 246-343)\<close>

text \<open>
  \<open>pushNotification\<close>, lines 309-319. The id (\<open>Date.now()\<close> and \<open>Math.random()\<close>) and
  the timestamp (\<open>new Date().toISOString()\<close>) come from the environment, so they are
  parameters; the function is the updater passed to \<open>setNotifications\<close>.
\<close>

definition pushNotification :: "string \<Rightarrow> string \<Rightarrow> string \<Rightarrow> string \<Rightarrow> string option
    \<Rightarrow> AppNotification list \<Rightarrow> AppNotification list" where
  "pushNotification fresh_id now title message orderId prev =
     (let item = \<lparr>n_id = fresh_id, n_title = title, n_message = message,
                  n_created_at = now, n_read = False, n_order_id = orderId\<rparr>
      in take 50 (item # prev))"

text \<open>\<open>markAllNotificationsRead\<close>, lines 321-323.\<close>

definition markAllNotificationsRead :: "AppNotification list \<Rightarrow> AppNotification list" where
  "markAllNotificationsRead prev = map (\<lambda>item. item\<lparr>n_read := True\<rparr>) prev"

text \<open>\<open>unreadNotificationCount\<close>, lines 246-249.\<close>

definition unreadNotificationCount :: "AppNotification list \<Rightarrow> nat" where
  "unreadNotificationCount ns = length (filter (\<lambda>item. \<not> n_read item) ns)"

text \<open>\<open>selectedOrder\<close>, lines 233-236.\<close>

definition selectedOrder :: "ui_state \<Rightarrow> Order option" where
  "selectedOrder st =
     (case selectedOrderId st of
        None \<Rightarrow> None
      | Some i \<Rightarrow> find (\<lambda>ord. o_id ord = i) (orders st))"

text \<open>
  \<open>openNotification\<close>, lines 325-343. \<open>fetchOrder\<close> is the answer of the backend to
  \<open>select * from orders where id = ... single\<close> (\<open>None\<close> when \<open>data\<close> is null). The
  first component of the result lists the ids fetched. \<open>orders_ref\<close> is
  \<open>ordersRef.current\<close>, read for \<open>exists\<close>; \<open>orders\<close> is the state the updater of
  \<open>setOrders\<close> receives as \<open>prev\<close>.
\<close>

definition mergeOrder :: "Order \<Rightarrow> Order list \<Rightarrow> Order list" where
  "mergeOrder d prev = (if list_ex (\<lambda>ord. o_id ord = o_id d) prev then prev else d # prev)"

definition openNotification :: "(string \<Rightarrow> Order option) \<Rightarrow> AppNotification \<Rightarrow> ui_state
    \<Rightarrow> string list \<times> ui_state" where
  "openNotification fetchOrder item st =
     (let st1 = st\<lparr>notifications :=
                  map (\<lambda>n. if n_id n = n_id item then n\<lparr>n_read := True\<rparr> else n) (notifications st)\<rparr>
      in if truthy (n_order_id item) then
           (case n_order_id item of
              None \<Rightarrow> ([], st1\<lparr>isNotificationOpen := False\<rparr>)
            | Some oid \<Rightarrow>
               (let exists = list_ex (\<lambda>ord. o_id ord = oid) (orders_ref st1);
                    fetched = (if \<not> exists then [oid] else []);
                    st2 = (if \<not> exists then
                             (case fetchOrder oid of
                                Some d \<Rightarrow> st1\<lparr>orders := mergeOrder d (orders st1)\<rparr>
                              | None \<Rightarrow> st1)
                           else st1)
                in (fetched, st2\<lparr>selectedPage := Dashboard, selectedOrderId := Some oid,
                                 sidebarOpen := False, isNotificationOpen := False\<rparr>)))
         else ([], st1\<lparr>isNotificationOpen := False\<rparr>))"

section \<open>Realtime callbacks (App.tsx lines 771-842)\<close>

text \<open>
  \<open>isClientOwn\<close>, lines 780 and 898: a client sees the order only when its
  \<open>client_id\<close> is the viewer's id; staff and admins see every order.
\<close>

definition isClientOwn :: "Profile \<Rightarrow> string option \<Rightarrow> bool" where
  "isClientOwn viewer client_id =
     (if p_role viewer = Client then client_id = Some (p_id viewer) else True)"

definition statusNotification :: "Order list \<Rightarrow> string \<Rightarrow> status \<Rightarrow> status \<Rightarrow> notify_call" where
  "statusNotification os orderId prev nextStatus =
     \<lparr>nc_title = ''Order Status Changed'',
      nc_message = getOrderCode os orderId @ '' moved from '' @ STATUS_LABELS prev
                   @ '' to '' @ STATUS_LABELS nextStatus,
      nc_order_id = Some orderId\<rparr>"

text \<open>
  The callback of \<open>ordersChannel\<close>, lines 773-796. The reloads it starts
  (\<open>loadOrderDetails\<close>, \<open>loadOrders\<close>) are asynchronous requests whose answers arrive as
  later events; they touch neither the references nor the inbox inside the callback.
\<close>

definition ordersChannel :: "Profile \<Rightarrow> order_payload \<Rightarrow> refs \<Rightarrow> notify_call list \<times> refs" where
  "ordersChannel viewer payload r =
     (if eventType payload = UPDATE \<or> eventType payload = INSERT then
        (let oldRow = old_row payload; newRow = new_row payload in
         if truthy (po_id newRow) then
           (case (po_id newRow, po_status newRow) of
              (Some i, Some s) \<Rightarrow>
                (let previousStatus =
                       (case orderStatusMapRef r i of Some p \<Rightarrow> Some p | None \<Rightarrow> po_status oldRow);
                     calls =
                       (case previousStatus of
                          Some p \<Rightarrow>
                            if p \<noteq> s \<and> isClientOwn viewer (po_client_id newRow)
                            then [statusNotification (ordersRef r) i p s] else []
                        | None \<Rightarrow> [])
                 in (calls, r\<lparr>orderStatusMapRef := (orderStatusMapRef r)(i \<mapsto> s)\<rparr>))
            | _ \<Rightarrow> ([], r))
         else ([], r))
      else ([], r))"

text \<open>The callback of \<open>commentsChannel\<close>, lines 801-822.\<close>

definition authorName :: "Profile \<Rightarrow> string" where
  "authorName author = (if truthy (p_full_name author) then the (p_full_name author) else p_email author)"

definition commentsChannel :: "Profile \<Rightarrow> partial_comment \<Rightarrow> refs \<Rightarrow> notify_call list \<times> refs" where
  "commentsChannel viewer row r =
     (if \<not> truthy (pc_order_id row) \<or> \<not> truthy (pc_id row) then ([], r)
      else
        (case (pc_id row, pc_order_id row) of
           (Some i, Some oid) \<Rightarrow>
             if i \<in> knownCommentIdsRef r then ([], r)
             else
               (let r' = r\<lparr>knownCommentIdsRef := insert i (knownCommentIdsRef r)\<rparr> in
                if pc_author_id row = Some (p_id viewer) then ([], r')
                else
                  (let author = (if truthy (pc_author_id row)
                                 then (case pc_author_id row of
                                         Some a \<Rightarrow> profilesByIdRef r' a | None \<Rightarrow> None)
                                 else None)
                   in case author of
                        Some au \<Rightarrow>
                          if p_role viewer \<noteq> Client \<and> p_role au = Client then
                            ([\<lparr>nc_title = ''Client Message'',
                               nc_message = authorName au @ '' sent a comment on ''
                                            @ getOrderCode (ordersRef r') oid,
                               nc_order_id = Some oid\<rparr>], r')
                          else
                            ([\<lparr>nc_title = ''New Comment'',
                               nc_message = ''New comment added on '' @ getOrderCode (ordersRef r') oid,
                               nc_order_id = Some oid\<rparr>], r')
                      | None \<Rightarrow>
                          ([\<lparr>nc_title = ''New Comment'',
                             nc_message = ''New comment added on '' @ getOrderCode (ordersRef r') oid,
                             nc_order_id = Some oid\<rparr>], r')))
         | _ \<Rightarrow> ([], r)))"

text \<open>The callback of \<open>filesChannel\<close>, lines 827-841.\<close>

definition fileNotification :: "Order list \<Rightarrow> string option \<Rightarrow> string \<Rightarrow> notify_call" where
  "fileNotification os file_name oid =
     \<lparr>nc_title = ''New File Uploaded'',
      nc_message = (case file_name of Some f \<Rightarrow> f | None \<Rightarrow> ''A file'')
                   @ '' was uploaded to '' @ getOrderCode os oid,
      nc_order_id = Some oid\<rparr>"

definition filesChannel :: "Profile \<Rightarrow> partial_file \<Rightarrow> refs \<Rightarrow> notify_call list \<times> refs" where
  "filesChannel viewer row r =
     (if \<not> truthy (pf_order_id row) \<or> \<not> truthy (pf_id row) then ([], r)
      else
        (case (pf_id row, pf_order_id row) of
           (Some i, Some oid) \<Rightarrow>
             if i \<in> knownFileIdsRef r then ([], r)
             else
               (let r' = r\<lparr>knownFileIdsRef := insert i (knownFileIdsRef r)\<rparr> in
                if pf_uploaded_by row = Some (p_id viewer) then ([], r')
                else ([fileNotification (ordersRef r') (pf_file_name row) oid], r'))
         | _ \<Rightarrow> ([], r)))"

section \<open>Periodic pull (\<open>syncEvents\<close>, App.tsx lines 873-940)\<close>

text \<open>The callback of \<open>ordersResult.data.forEach\<close>, lines 894-908.\<close>

definition syncOrderRow :: "Profile \<Rightarrow> order_row \<Rightarrow> refs \<Rightarrow> notify_call list \<times> refs" where
  "syncOrderRow viewer row r =
     (let nextStatus = or_status row;
          calls =
            (case orderStatusMapRef r (or_id row) of
               Some prev \<Rightarrow>
                 if prev \<noteq> nextStatus \<and> isClientOwn viewer (or_client_id row)
                 then [statusNotification (ordersRef r) (or_id row) prev nextStatus] else []
             | None \<Rightarrow> [])
      in (calls, r\<lparr>orderStatusMapRef := (orderStatusMapRef r)(or_id row \<mapsto> nextStatus)\<rparr>))"

text \<open>The callback of \<open>commentsResult.data.forEach\<close>, lines 912-921.\<close>

definition syncCommentRow :: "Profile \<Rightarrow> comment_row \<Rightarrow> refs \<Rightarrow> notify_call list \<times> refs" where
  "syncCommentRow viewer item r =
     (if cr_id item \<in> knownCommentIdsRef r then ([], r)
      else
        (let r1 = r\<lparr>knownCommentIdsRef := insert (cr_id item) (knownCommentIdsRef r)\<rparr>;
             calls =
               (if cr_author_id item \<noteq> Some (p_id viewer) then
                  [\<lparr>nc_title = ''New Comment'',
                    nc_message = ''New comment added on ''
                                 @ getOrderCode (ordersRef r1) (cr_order_id item),
                    nc_order_id = Some (cr_order_id item)\<rparr>]
                else []);
             r2 = (if cr_created_at item \<noteq> [] \<and> cr_created_at item > lastCommentSeenAtRef r1
                   then r1\<lparr>lastCommentSeenAtRef := cr_created_at item\<rparr> else r1)
         in (calls, r2)))"

text \<open>The callback of \<open>filesResult.data.forEach\<close>, lines 925-938.\<close>

definition syncFileRow :: "Profile \<Rightarrow> file_row \<Rightarrow> refs \<Rightarrow> notify_call list \<times> refs" where
  "syncFileRow viewer item r =
     (if fr_id item \<in> knownFileIdsRef r then ([], r)
      else
        (let r1 = r\<lparr>knownFileIdsRef := insert (fr_id item) (knownFileIdsRef r)\<rparr>;
             calls =
               (if fr_uploaded_by item \<noteq> Some (p_id viewer) then
                  [fileNotification (ordersRef r1) (fr_file_name item) (fr_order_id item)]
                else []);
             r2 = (if fr_created_at item \<noteq> [] \<and> fr_created_at item > lastFileSeenAtRef r1
                   then r1\<lparr>lastFileSeenAtRef := fr_created_at item\<rparr> else r1)
         in (calls, r2)))"

text \<open>
  \<open>syncEvents\<close> after its three queries have answered. A query result is \<open>None\<close> when
  it carries an error or no data (\<open>!result.error && result.data\<close> fails), else the rows.
\<close>

definition syncEvents :: "Profile \<Rightarrow> bool \<Rightarrow> order_row list option \<Rightarrow> comment_row list option
    \<Rightarrow> file_row list option \<Rightarrow> refs \<Rightarrow> notify_call list \<times> refs" where
  "syncEvents viewer cancelled ordersResult commentsResult filesResult r =
     (if cancelled then ([], r)
      else
        (case (case ordersResult of
                 Some rows \<Rightarrow> forEach (syncOrderRow viewer) rows r | None \<Rightarrow> ([], r)) of
           (cs1, r1) \<Rightarrow>
        (case (case commentsResult of
                 Some rows \<Rightarrow> forEach (syncCommentRow viewer) rows r1 | None \<Rightarrow> ([], r1)) of
           (cs2, r2) \<Rightarrow>
        (case (case filesResult of
                 Some rows \<Rightarrow> forEach (syncFileRow viewer) rows r2 | None \<Rightarrow> ([], r2)) of
           (cs3, r3) \<Rightarrow> (cs1 @ cs2 @ cs3, r3)))))"

section \<open>The effect on the loaded orders (App.tsx lines 737-740)\<close>

text \<open>
  \<open>useEffect(() => { ordersRef.current = orders; orderStatusMapRef.current = new
  Map(orders.map((order) => [order.id, order.status])); }, [orders])\<close>: React runs it
  after every change of the \<open>orders\<close> state (\<open>loadOrders\<close>, the merge of
  \<open>openNotification\<close>). The status map is replaced as a whole by the statuses of the
  loaded orders; in \<open>new Map\<close> a later pair wins over an earlier one with the same key.
\<close>

definition ordersEffect :: "Order list \<Rightarrow> refs \<Rightarrow> refs" where
  "ordersEffect os r =
     r\<lparr>ordersRef := os,
       orderStatusMapRef := map_of (rev (map (\<lambda>ord. (o_id ord, o_status ord)) os))\<rparr>"

section \<open>Deliveries\<close>

text \<open>
  A comment or a file reaches the client as the row of a realtime INSERT event (push) or
  as a row of a pull query; the callbacks above are what runs for one such delivery.
  \<open>syncEvents\<close> runs the pull callbacks row by row, so every execution of the session
  is a sequence of deliveries.
\<close>

datatype stream = Comments | Files

datatype delivery =
    CommentPush partial_comment
  | CommentPull comment_row
  | FilePush partial_file
  | FilePull file_row

fun deliver :: "Profile \<Rightarrow> delivery \<Rightarrow> refs \<Rightarrow> notify_call list \<times> refs" where
  "deliver viewer (CommentPush row) r = commentsChannel viewer row r"
| "deliver viewer (CommentPull item) r = syncCommentRow viewer item r"
| "deliver viewer (FilePush row) r = filesChannel viewer row r"
| "deliver viewer (FilePull item) r = syncFileRow viewer item r"

text \<open>The stream and id a delivery carries (a push row may carry no id).\<close>

fun deliveredId :: "delivery \<Rightarrow> (stream \<times> string) option" where
  "deliveredId (CommentPush row) = map_option (Pair Comments) (pc_id row)"
| "deliveredId (CommentPull item) = Some (Comments, cr_id item)"
| "deliveredId (FilePush row) = map_option (Pair Files) (pf_id row)"
| "deliveredId (FilePull item) = Some (Files, fr_id item)"

text \<open>A push row passes the guard of its callback when it has an id and an order reference.\<close>

fun complete :: "delivery \<Rightarrow> bool" where
  "complete (CommentPush row) = (truthy (pc_order_id row) \<and> truthy (pc_id row))"
| "complete (CommentPull item) = True"
| "complete (FilePush row) = (truthy (pf_order_id row) \<and> truthy (pf_id row))"
| "complete (FilePull item) = True"

text \<open>The author of the comment or the uploader of the file.\<close>

fun actor :: "delivery \<Rightarrow> string option" where
  "actor (CommentPush row) = pc_author_id row"
| "actor (CommentPull item) = cr_author_id item"
| "actor (FilePush row) = pf_uploaded_by row"
| "actor (FilePull item) = fr_uploaded_by item"

fun isKnown :: "stream \<times> string \<Rightarrow> refs \<Rightarrow> bool" where
  "isKnown (Comments, i) r = (i \<in> knownCommentIdsRef r)"
| "isKnown (Files, i) r = (i \<in> knownFileIdsRef r)"

text \<open>
  The number of \<open>pushNotification\<close> invocations made, along a sequence of deliveries, by
  the deliveries that carry the id \<open>k\<close>.
\<close>

fun synthesizedFor :: "Profile \<Rightarrow> stream \<times> string \<Rightarrow> delivery list \<Rightarrow> refs \<Rightarrow> nat" where
  "synthesizedFor viewer k [] r = 0"
| "synthesizedFor viewer k (d # ds) r =
     (case deliver viewer d r of (cs, r') \<Rightarrow>
        (if deliveredId d = Some k then length cs else 0) + synthesizedFor viewer k ds r')"

text \<open>
  An order status reaches the status diff as the new row of a realtime event or as a row
  of the pull query.
\<close>

datatype observation = ViaPush order_payload | ViaPull order_row

fun observe :: "Profile \<Rightarrow> observation \<Rightarrow> refs \<Rightarrow> notify_call list \<times> refs" where
  "observe viewer (ViaPush payload) r = ordersChannel viewer payload r"
| "observe viewer (ViaPull row) r = syncOrderRow viewer row r"

text \<open>
  \<open>observes d i s cid\<close>: the observation reports order \<open>i\<close> with status \<open>s\<close> and
  client \<open>cid\<close>. For a push, the event is an INSERT or UPDATE whose new row has a
  (non-empty) id and a status.
\<close>

fun observes :: "observation \<Rightarrow> string \<Rightarrow> status \<Rightarrow> string option \<Rightarrow> bool" where
  "observes (ViaPush payload) i s cid =
     ((eventType payload = UPDATE \<or> eventType payload = INSERT) \<and> i \<noteq> []
      \<and> po_id (new_row payload) = Some i \<and> po_status (new_row payload) = Some s
      \<and> po_client_id (new_row payload) = cid)"
| "observes (ViaPull row) i s cid =
     (or_id row = i \<and> or_status row = s \<and> or_client_id row = cid)"

text \<open>The status of the old row image, which only a push carries.\<close>

fun oldStatus :: "observation \<Rightarrow> status option" where
  "oldStatus (ViaPush payload) = po_status (old_row payload)"
| "oldStatus (ViaPull row) = None"

section \<open>Concrete inputs\<close>

definition emptyRefs :: refs where
  "emptyRefs = \<lparr>ordersRef = [], profilesByIdRef = Map.empty, knownCommentIdsRef = {},
                knownFileIdsRef = {}, orderStatusMapRef = Map.empty,
                lastCommentSeenAtRef = ''2026-01-01T00:00:00.000Z'',
                lastFileSeenAtRef = ''2026-01-01T00:00:00.000Z''\<rparr>"

definition staffViewer :: Profile where
  "staffViewer = \<lparr>p_id = ''s1'', p_email = ''staff@example.com'', p_full_name = Some ''Sam'',
                  p_role = Staff\<rparr>"

definition clientViewer :: Profile where
  "clientViewer = \<lparr>p_id = ''c1'', p_email = ''client@example.com'', p_full_name = Some ''Cleo'',
                   p_role = Client\<rparr>"

definition entry :: "string \<Rightarrow> bool \<Rightarrow> AppNotification" where
  "entry k rd = \<lparr>n_id = k, n_title = ''New Comment'',
                n_message = ''New comment added on ORD-1'', n_created_at = ''2026-01-01'',
                n_read = rd, n_order_id = Some ''o1''\<rparr>"

text \<open>
  \<open>handleStatusUpdate\<close> (App.tsx lines 664-675) sends
  \<open>update({status: statusDraft}).eq('id', selectedOrder.id)\<close> to the backend. This is the
  change event the feed then delivers to every subscriber of the orders table, the
  viewer who performed the update included: an UPDATE with the row images before and
  after. Neither image names who performed the update.
\<close>

definition rowImage :: "Order \<Rightarrow> partial_order" where
  "rowImage ord = \<lparr>po_id = Some (o_id ord), po_status = Some (o_status ord),
                   po_client_id = o_client_id ord\<rparr>"

definition handleStatusUpdate :: "Order \<Rightarrow> status \<Rightarrow> order_payload" where
  "handleStatusUpdate selected statusDraft =
     \<lparr>eventType = UPDATE, old_row = rowImage selected,
      new_row = rowImage (selected\<lparr>o_status := statusDraft\<rparr>)\<rparr>"

definition sampleOrder :: Order where
  "sampleOrder = \<lparr>o_id = ''o1'', o_order_code = ''ORD-1'', o_title = ''Thesis review'',
                  o_status = Not_started, o_client_id = Some ''c1''\<rparr>"

definition seededRefs :: refs where
  "seededRefs = emptyRefs\<lparr>ordersRef := [sampleOrder],
                          profilesByIdRef := [''c1'' \<mapsto> clientViewer, ''s1'' \<mapsto> staffViewer],
                          orderStatusMapRef := [''o1'' \<mapsto> Not_started]\<rparr>"

definition samplePayload :: order_payload where
  "samplePayload =
     \<lparr>eventType = UPDATE,
      old_row = \<lparr>po_id = Some ''o1'', po_status = None, po_client_id = None\<rparr>,
      new_row = \<lparr>po_id = Some ''o1'', po_status = Some In_progress, po_client_id = Some ''c1''\<rparr>\<rparr>"

definition sampleOrderRow :: order_row where
  "sampleOrderRow = \<lparr>or_id = ''o1'', or_status = In_progress, or_client_id = Some ''c1''\<rparr>"

definition foreignOrderRow :: order_row where
  "foreignOrderRow = \<lparr>or_id = ''o1'', or_status = In_progress, or_client_id = Some ''c2''\<rparr>"

definition unseenPayload :: order_payload where
  "unseenPayload =
     \<lparr>eventType = UPDATE,
      old_row = \<lparr>po_id = Some ''o2'', po_status = Some Not_started, po_client_id = Some ''c1''\<rparr>,
      new_row = \<lparr>po_id = Some ''o2'', po_status = Some Completed, po_client_id = Some ''c1''\<rparr>\<rparr>"

definition unseenOrderRow :: order_row where
  "unseenOrderRow = \<lparr>or_id = ''o2'', or_status = Completed, or_client_id = Some ''c1''\<rparr>"

definition sampleFilePush :: partial_file where
  "sampleFilePush = \<lparr>pf_id = Some ''f1'', pf_order_id = Some ''o1'', pf_uploaded_by = Some ''c1'',
                     pf_file_name = Some ''brief.pdf''\<rparr>"

definition sampleFilePull :: file_row where
  "sampleFilePull = \<lparr>fr_id = ''f1'', fr_order_id = ''o1'', fr_uploaded_by = Some ''c1'',
                     fr_file_name = Some ''brief.pdf'',
                     fr_created_at = ''2026-01-02T00:00:00.000Z''\<rparr>"

definition sampleCommentPush :: partial_comment where
  "sampleCommentPush = \<lparr>pc_id = Some ''m1'', pc_order_id = Some ''o1'', pc_author_id = Some ''c1''\<rparr>"

definition sampleCommentPull :: comment_row where
  "sampleCommentPull = \<lparr>cr_id = ''m1'', cr_order_id = ''o1'', cr_author_id = Some ''c1'',
                        cr_created_at = ''2026-01-02T00:00:00.000Z''\<rparr>"

definition sampleState :: ui_state where
  "sampleState = \<lparr>notifications = [entry ''n1'' False, entry ''n2'' False], orders = [], orders_ref = [],
                  selectedPage = Reports, selectedOrderId = None, sidebarOpen = True,
                  isNotificationOpen = True\<rparr>"

text \<open>A backend that holds \<open>sampleOrder\<close> and nothing else.\<close>

definition sampleBackend :: "string \<Rightarrow> Order option" where
  "sampleBackend i = (if i = ''o1'' then Some sampleOrder else None)"

text \<open>
  An order created after the orders were loaded, a notification that refers to it, and
  the state of a viewer who has \<open>sampleOrder\<close> loaded and its view open.
\<close>

definition newOrder :: Order where
  "newOrder = \<lparr>o_id = ''o2'', o_order_code = ''ORD-2'', o_title = ''Server audit'',
               o_status = Not_started, o_client_id = Some ''c1''\<rparr>"

definition newOrderEntry :: AppNotification where
  "newOrderEntry = \<lparr>n_id = ''n3'', n_title = ''New Comment'',
                    n_message = ''New comment added on o2'', n_created_at = ''2026-01-03'',
                    n_read = False, n_order_id = Some ''o2''\<rparr>"

definition newOrderBackend :: "string \<Rightarrow> Order option" where
  "newOrderBackend i = (if i = ''o2'' then Some newOrder else None)"

definition loadedState :: ui_state where
  "loadedState = \<lparr>notifications = [newOrderEntry], orders = [sampleOrder],
                  orders_ref = [sampleOrder], selectedPage = Dashboard,
                  selectedOrderId = Some ''o1'', sidebarOpen = False,
                  isNotificationOpen = True\<rparr>"

text \<open>Two inbox entries that share one id.\<close>

definition twinEntry :: AppNotification where
  "twinEntry = \<lparr>n_id = ''n1'', n_title = ''New File Uploaded'',
                n_message = ''brief.pdf was uploaded to ORD-1'', n_created_at = ''2026-01-01'',
                n_read = False, n_order_id = Some ''o1''\<rparr>"

section \<open>Unfolding rules\<close>

lemmas sample_defs = emptyRefs_def seededRefs_def staffViewer_def clientViewer_def entry_def
  sampleOrder_def samplePayload_def sampleOrderRow_def foreignOrderRow_def unseenPayload_def
  unseenOrderRow_def sampleFilePush_def sampleFilePull_def sampleCommentPush_def
  sampleCommentPull_def sampleState_def sampleBackend_def rowImage_def handleStatusUpdate_def
  newOrder_def newOrderEntry_def newOrderBackend_def loadedState_def twinEntry_def

lemmas callback_defs = commentsChannel_def syncCommentRow_def filesChannel_def syncFileRow_def

lemmas code_defs = ordersChannel_def syncOrderRow_def callback_defs syncEvents_def
  isClientOwn_def statusNotification_def fileNotification_def getOrderCode_def authorName_def
  Let_def

section \<open>The inbox: cap, read flags, unread count\<close>

lemma push_eq: "pushNotification fid now t m oid prev =
   \<lparr>n_id = fid, n_title = t, n_message = m, n_created_at = now, n_read = False, n_order_id = oid\<rparr> # take 49 prev"
  by (simp add: pushNotification_def Let_def take_Cons')

text \<open>
  Claim C7. From any inbox, \<open>pushNotification\<close> puts the new entry in front and keeps the
  50 most recent entries: the new entry is followed by the first 49 old ones, so the inbox
  never has more than 50 entries; below the cap nothing is lost, and at 50 entries exactly
  the last (oldest) one is dropped while the others keep their order.
\<close>

theorem pushNotification_capped:
  "pushNotification fid now t m oid prev =
     \<lparr>n_id = fid, n_title = t, n_message = m, n_created_at = now, n_read = False, n_order_id = oid\<rparr>
       # take 49 prev
   \<and> length (pushNotification fid now t m oid prev) \<le> 50
   \<and> (length prev < 50 \<longrightarrow> tl (pushNotification fid now t m oid prev) = prev)
   \<and> (length prev = 50 \<longrightarrow> tl (pushNotification fid now t m oid prev) = butlast prev)"
  by (simp add: push_eq butlast_conv_take)

theorem pushNotification_capped_witness:
  "length (replicate 50 (entry ''n1'' True)) = 50
   \<and> length (pushNotification ''x'' ''t'' ''T'' ''M'' None (replicate 50 (entry ''n1'' True))) \<le> 50
   \<and> tl (pushNotification ''x'' ''t'' ''T'' ''M'' None (replicate 50 (entry ''n1'' True)))
       = butlast (replicate 50 (entry ''n1'' True))"
  using pushNotification_capped [of "''x''" "''t''" "''T''" "''M''" None "replicate 50 (entry ''n1'' True)"]
    length_replicate [of 50 "entry ''n1'' True"]
  by blast

text \<open>
  Claim C9. \<open>markAllNotificationsRead\<close> leaves every entry read (the unread count is 0),
  changes nothing but the read flags, and applying it twice gives the same inbox as
  applying it once.
\<close>

theorem markAllNotificationsRead_idempotent:
  "(\<forall>item \<in> set (markAllNotificationsRead ns). n_read item)
   \<and> markAllNotificationsRead (markAllNotificationsRead ns) = markAllNotificationsRead ns
   \<and> unreadNotificationCount (markAllNotificationsRead ns) = 0
   \<and> map (\<lambda>item. item\<lparr>n_read := False\<rparr>) (markAllNotificationsRead ns)
       = map (\<lambda>item. item\<lparr>n_read := False\<rparr>) ns"
  by (simp add: markAllNotificationsRead_def unreadNotificationCount_def)

theorem markAllNotificationsRead_idempotent_witness:
  "entry ''n1'' False \<in> set [entry ''n1'' False, entry ''n2'' True]
   \<and> list_all n_read (markAllNotificationsRead [entry ''n1'' False, entry ''n2'' True])
   \<and> markAllNotificationsRead [entry ''n1'' False, entry ''n2'' True] = [entry ''n1'' True, entry ''n2'' True]"
  using markAllNotificationsRead_idempotent [of "[entry ''n1'' False, entry ''n2'' True]"]
  by (simp add: markAllNotificationsRead_def entry_def)

lemma unread_split: "unreadNotificationCount ns
   = unreadNotificationCount (take k ns) + unreadNotificationCount (drop k ns)"
proof -
  have "filter (\<lambda>item. \<not> n_read item) ns
      = filter (\<lambda>item. \<not> n_read item) (take k ns @ drop k ns)" by simp
  then show ?thesis unfolding unreadNotificationCount_def
    by (simp only: filter_append length_append)
qed

lemma unread_all_read: "\<forall>item \<in> set ns. n_read item \<Longrightarrow> unreadNotificationCount ns = 0"
  by (simp add: unreadNotificationCount_def)

text \<open>
  Claim C10. The entry that \<open>pushNotification\<close> puts in front is unread, the entries
  behind it are the old ones as they were, and when every entry the cap evicts (those from
  position 49 on) was already read, the unread count grows by exactly one.
\<close>

theorem pushNotification_unread:
  "\<not> n_read (hd (pushNotification fid now t m oid prev))
   \<and> tl (pushNotification fid now t m oid prev) = take 49 prev
   \<and> ((\<forall>item \<in> set (drop 49 prev). n_read item) \<longrightarrow>
        unreadNotificationCount (pushNotification fid now t m oid prev)
          = unreadNotificationCount prev + 1)"
proof -
  have "unreadNotificationCount (pushNotification fid now t m oid prev)
          = unreadNotificationCount (take 49 prev) + 1"
    by (simp add: push_eq unreadNotificationCount_def)
  moreover have "(\<forall>item \<in> set (drop 49 prev). n_read item) \<Longrightarrow>
      unreadNotificationCount prev = unreadNotificationCount (take 49 prev)"
    using unread_split [of prev 49] unread_all_read [of "drop 49 prev"] by simp
  ultimately show ?thesis by (simp add: push_eq)
qed

theorem pushNotification_unread_witness:
  "drop 49 [entry ''n1'' True, entry ''n2'' False] = []
   \<and> unreadNotificationCount [entry ''n1'' True, entry ''n2'' False] = 1
   \<and> unreadNotificationCount (pushNotification ''x'' ''t'' ''T'' ''M'' None [entry ''n1'' True, entry ''n2'' False]) = 2"
  using pushNotification_unread [of "''x''" "''t''" "''T''" "''M''" None "[entry ''n1'' True, entry ''n2'' False]"]
  by (simp add: unreadNotificationCount_def entry_def)

section \<open>Deduplication of comment and file events\<close>

lemma deliver_known_kept: "isKnown k r \<Longrightarrow> isKnown k (snd (deliver viewer d r))"
  by (cases k; cases "fst k"; cases d)
     (auto simp: callback_defs Let_def split: option.splits if_splits)

lemma deliver_at_most_one: "length (fst (deliver viewer d r)) \<le> 1"
  by (cases d) (auto simp: callback_defs Let_def split: option.splits if_splits)

lemma deliver_known_drops:
  "deliveredId d = Some k \<Longrightarrow> isKnown k r \<Longrightarrow> deliver viewer d r = ([], r)"
  by (cases d) (auto simp: callback_defs Let_def split: option.splits if_splits)

lemma deliver_records:
  "deliveredId d = Some k \<Longrightarrow> complete d \<Longrightarrow> isKnown k (snd (deliver viewer d r))"
  by (cases d) (auto simp: callback_defs Let_def split: option.splits if_splits)

lemma deliver_emits_records:
  "deliveredId d = Some k \<Longrightarrow> fst (deliver viewer d r) \<noteq> [] \<Longrightarrow>
     isKnown k (snd (deliver viewer d r))"
  by (cases d) (auto simp: callback_defs Let_def split: option.splits if_splits)

lemma synthesizedFor_known: "isKnown k r \<Longrightarrow> synthesizedFor viewer k ds r = 0"
proof (induction ds arbitrary: r)
  case Nil
  then show ?case by simp
next
  case (Cons d ds)
  obtain cs r' where step: "deliver viewer d r = (cs, r')" by (cases "deliver viewer d r")
  have kept: "isKnown k r'" using deliver_known_kept [OF Cons.prems, of viewer d] step by simp
  have "deliveredId d = Some k \<Longrightarrow> cs = []"
    using deliver_known_drops [OF _ Cons.prems, of d viewer] step by simp
  then show ?case using Cons.IH [OF kept] step by simp
qed

lemma synthesizedFor_le_one: "synthesizedFor viewer k ds r \<le> 1"
proof (induction ds arbitrary: r)
  case Nil
  then show ?case by simp
next
  case (Cons d ds)
  obtain cs r' where step: "deliver viewer d r = (cs, r')" by (cases "deliver viewer d r")
  have len: "length cs \<le> 1" using deliver_at_most_one [of viewer d r] step by simp
  show ?case
  proof (cases "deliveredId d = Some k \<and> cs \<noteq> []")
    case True
    then have "isKnown k r'" using deliver_emits_records [of d k viewer r] step by simp
    then have "synthesizedFor viewer k ds r' = 0" by (rule synthesizedFor_known)
    then show ?thesis using step len by simp
  next
    case False
    then show ?thesis using step Cons.IH [of r'] by auto
  qed
qed

lemma forEach_syncCommentRow:
  "forEach (syncCommentRow viewer) rows r = forEach (deliver viewer) (map CommentPull rows) r"
  by (induction rows arbitrary: r) auto

lemma forEach_syncFileRow:
  "forEach (syncFileRow viewer) rows r = forEach (deliver viewer) (map FilePull rows) r"
  by (induction rows arbitrary: r) auto

text \<open>
  Claim C1. Along any sequence of deliveries of comment and file rows, by the realtime
  callbacks and the pull in any combination and from any state of the known-id sets, the
  deliveries that carry one id make at most one \<open>pushNotification\<close> invocation in total.
  A delivery that passes the guard of its callback leaves its id in the known-id set of its
  stream, an id once known stays known, a delivery of a known id makes no invocation and
  changes no reference, and an id known at the start is never notified.
\<close>

theorem at_most_one_notification_per_id:
  "synthesizedFor viewer k ds r \<le> 1
   \<and> (deliveredId d = Some k \<and> complete d \<longrightarrow> isKnown k (snd (deliver viewer d r)))
   \<and> (isKnown k r \<longrightarrow> isKnown k (snd (deliver viewer d r)))
   \<and> (deliveredId d = Some k \<and> isKnown k r \<longrightarrow> deliver viewer d r = ([], r))
   \<and> (isKnown k r \<longrightarrow> synthesizedFor viewer k ds r = 0)"
  using synthesizedFor_le_one deliver_records deliver_known_kept deliver_known_drops
    synthesizedFor_known by blast

theorem at_most_one_notification_per_id_witness:
  "deliveredId (FilePush sampleFilePush) = Some (Files, ''f1'')
   \<and> complete (FilePush sampleFilePush)
   \<and> synthesizedFor staffViewer (Files, ''f1'')
         [FilePush sampleFilePush, FilePull sampleFilePull, FilePush sampleFilePush] emptyRefs = 1
   \<and> synthesizedFor staffViewer (Files, ''f1'')
         [FilePull sampleFilePull, FilePush sampleFilePush, FilePull sampleFilePull] emptyRefs = 1
   \<and> isKnown (Files, ''f1'') (snd (deliver staffViewer (FilePush sampleFilePush) emptyRefs))
   \<and> deliveredId (FilePull sampleFilePull) = Some (Files, ''f1'')
   \<and> deliver staffViewer (FilePull sampleFilePull)
         (snd (deliver staffViewer (FilePush sampleFilePush) emptyRefs))
       = ([], snd (deliver staffViewer (FilePush sampleFilePush) emptyRefs))
   \<and> syncEvents staffViewer False None (Some [sampleCommentPull]) (Some [sampleFilePull])
         (snd (deliver staffViewer (CommentPush sampleCommentPush)
            (snd (deliver staffViewer (FilePush sampleFilePush) emptyRefs))))
       = ([], snd (deliver staffViewer (CommentPush sampleCommentPush)
            (snd (deliver staffViewer (FilePush sampleFilePush) emptyRefs))))
   \<and> synthesizedFor staffViewer (Comments, ''m1'')
         [CommentPull sampleCommentPull, CommentPush sampleCommentPush] emptyRefs = 1"
  using at_most_one_notification_per_id [of staffViewer "(Files, ''f1'')"
      "[FilePush sampleFilePush, FilePull sampleFilePull, FilePush sampleFilePush]" emptyRefs
      "FilePush sampleFilePush"]
    at_most_one_notification_per_id [of staffViewer "(Files, ''f1'')"
      "[FilePull sampleFilePull]" "snd (deliver staffViewer (FilePush sampleFilePush) emptyRefs)"
      "FilePull sampleFilePull"]
  by (simp add: sample_defs code_defs)

section \<open>Status diff\<close>

lemma observe_recorded:
  "orderStatusMapRef r i = Some s1 \<Longrightarrow> observes d i s2 cid \<Longrightarrow>
   observe viewer d r =
     (if s1 \<noteq> s2 \<and> isClientOwn viewer cid
      then [statusNotification (ordersRef r) i s1 s2] else [],
      r\<lparr>orderStatusMapRef := (orderStatusMapRef r)(i \<mapsto> s2)\<rparr>)"
  by (cases d) (auto simp: ordersChannel_def syncOrderRow_def Let_def)

lemma observe_unrecorded:
  "orderStatusMapRef r i = None \<Longrightarrow> observes d i s cid \<Longrightarrow>
   observe viewer d r =
     (case oldStatus d of
        Some p \<Rightarrow> if p \<noteq> s \<and> isClientOwn viewer cid
                  then [statusNotification (ordersRef r) i p s] else []
      | None \<Rightarrow> [],
      r\<lparr>orderStatusMapRef := (orderStatusMapRef r)(i \<mapsto> s)\<rparr>)"
  by (cases d) (auto simp: ordersChannel_def syncOrderRow_def Let_def split: option.splits)

text \<open>
  As long as nothing rebuilds the status map between them, two observations of one
  transition, each by the realtime callback or by the pull, make one invocation at most:
  the first makes exactly one "Order Status Changed" invocation when the viewer may see
  the order (\<open>isClientOwn\<close>) and none otherwise, and in both cases sets the map entry to
  the new status; the second finds the new status recorded and is silent.
\<close>

lemma status_transition_back_to_back:
  "orderStatusMapRef r i = Some s1 \<and> s2 \<noteq> s1 \<and> observes d1 i s2 cid \<and> observes d2 i s2 cid \<longrightarrow>
     fst (observe viewer d1 r) =
       (if isClientOwn viewer cid then [statusNotification (ordersRef r) i s1 s2] else [])
     \<and> snd (observe viewer d1 r) = r\<lparr>orderStatusMapRef := (orderStatusMapRef r)(i \<mapsto> s2)\<rparr>
     \<and> orderStatusMapRef (snd (observe viewer d1 r)) i = Some s2
     \<and> observe viewer d2 (snd (observe viewer d1 r)) = ([], snd (observe viewer d1 r))"
proof (intro impI, elim conjE)
  assume a: "orderStatusMapRef r i = Some s1" "s2 \<noteq> s1" "observes d1 i s2 cid"
    "observes d2 i s2 cid"
  let ?r' = "r\<lparr>orderStatusMapRef := (orderStatusMapRef r)(i \<mapsto> s2)\<rparr>"
  have first: "observe viewer d1 r =
      (if isClientOwn viewer cid then [statusNotification (ordersRef r) i s1 s2] else [], ?r')"
    using observe_recorded [OF a(1) a(3), of viewer] a(2) by auto
  have "orderStatusMapRef ?r' i = Some s2" by simp
  then have "observe viewer d2 ?r' = ([], ?r')"
    using observe_recorded [of ?r' i s2 d2 s2 cid viewer] a(4) by simp
  with first show "fst (observe viewer d1 r) =
       (if isClientOwn viewer cid then [statusNotification (ordersRef r) i s1 s2] else [])
     \<and> snd (observe viewer d1 r) = ?r'
     \<and> orderStatusMapRef (snd (observe viewer d1 r)) i = Some s2
     \<and> observe viewer d2 (snd (observe viewer d1 r)) = ([], snd (observe viewer d1 r))"
    by simp
qed

lemma ordersEffect_status:
  "orderStatusMapRef (ordersEffect os r) i
     = map_option o_status (find (\<lambda>ord. o_id ord = i) (rev os))"
  unfolding ordersEffect_def by (induction os rule: rev_induct) auto

text \<open>
  Claim C2 at a failing input. The viewer is staff, \<open>sampleOrder\<close> (o1, Not Started) is
  loaded and the status map holds Not Started for it. A pull reports o1 as In Progress:
  the transition is announced and the map entry becomes In Progress, but the pull does
  not refresh the \<open>orders\<close> state, which keeps o1 as Not Started. The viewer opens a
  notification for the order o2 that is not loaded; \<open>openNotification\<close> puts the fetched
  o2 in front of the stale list, the change of \<open>orders\<close> runs the effect of lines
  737-740, and the map entry of o1 is Not Started again. The next pull reports o1 as In
  Progress once more and the same transition is announced a second time.
\<close>

theorem status_transition_announced_twice:
  "orderStatusMapRef seededRefs ''o1'' = Some Not_started
   \<and> fst (syncEvents staffViewer False (Some [sampleOrderRow]) None None seededRefs) =
       [\<lparr>nc_title = ''Order Status Changed'',
         nc_message = ''ORD-1 moved from Not Started to In Progress'',
         nc_order_id = Some ''o1''\<rparr>]
   \<and> orderStatusMapRef
         (snd (syncEvents staffViewer False (Some [sampleOrderRow]) None None seededRefs)) ''o1''
       = Some In_progress
   \<and> openNotification newOrderBackend newOrderEntry loadedState =
       ([''o2''], loadedState\<lparr>notifications := [newOrderEntry\<lparr>n_read := True\<rparr>],
                              orders := [newOrder, sampleOrder], selectedPage := Dashboard,
                              selectedOrderId := Some ''o2'', sidebarOpen := False,
                              isNotificationOpen := False\<rparr>)
   \<and> orderStatusMapRef
         (ordersEffect (orders (snd (openNotification newOrderBackend newOrderEntry loadedState)))
            (snd (syncEvents staffViewer False (Some [sampleOrderRow]) None None seededRefs)))
         ''o1''
       = Some Not_started
   \<and> fst (syncEvents staffViewer False (Some [sampleOrderRow]) None None
        (ordersEffect (orders (snd (openNotification newOrderBackend newOrderEntry loadedState)))
           (snd (syncEvents staffViewer False (Some [sampleOrderRow]) None None seededRefs)))) =
       [\<lparr>nc_title = ''Order Status Changed'',
         nc_message = ''ORD-1 moved from Not Started to In Progress'',
         nc_order_id = Some ''o1''\<rparr>]"
  by (simp add: sample_defs code_defs ordersEffect_def openNotification_def mergeOrder_def)

theorem status_transition_announced_twice_witness:
  "length (fst (syncEvents staffViewer False (Some [sampleOrderRow]) None None seededRefs)) = 1
   \<and> length (fst (syncEvents staffViewer False (Some [sampleOrderRow]) None None
        (ordersEffect (orders (snd (openNotification newOrderBackend newOrderEntry loadedState)))
           (snd (syncEvents staffViewer False (Some [sampleOrderRow]) None None seededRefs)))))
       = 1"
  using status_transition_announced_twice
  by (simp add: sample_defs code_defs ordersEffect_def openNotification_def mergeOrder_def)

text \<open>
  Claim C3 as stated fails on the realtime path: with no map entry for the order, the
  callback of \<open>ordersChannel\<close> falls back to the status of the old row image
  (\<open>orderStatusMapRef.current.get(newRow.id) ?? oldRow.status\<close>) and notifies when it
  differs from the new status.
\<close>

theorem unrecorded_order_push_notifies:
  "orderStatusMapRef emptyRefs ''o2'' = None
   \<and> observes (ViaPush unseenPayload) ''o2'' Completed (Some ''c1'')
   \<and> fst (observe staffViewer (ViaPush unseenPayload) emptyRefs) =
       [\<lparr>nc_title = ''Order Status Changed'',
         nc_message = ''o2 moved from Not Started to Completed'',
         nc_order_id = Some ''o2''\<rparr>]"
  by (simp add: sample_defs code_defs)

text \<open>
  Claim C3, amended. Let the status map hold no entry for an observed order. When the
  observation carries no old status (every pull row, and a push whose old row image has
  no status) no invocation is made; a push whose old row image has a status takes that
  status as the prior one. In every case the map afterwards holds the observed status.
\<close>

theorem unrecorded_order_silent:
  "orderStatusMapRef r i = None \<and> observes d i s cid \<longrightarrow>
     (oldStatus d = None \<longrightarrow> fst (observe viewer d r) = [])
     \<and> (\<forall>p. oldStatus d = Some p \<longrightarrow>
           fst (observe viewer d r) =
             (if p \<noteq> s \<and> isClientOwn viewer cid
              then [statusNotification (ordersRef r) i p s] else []))
     \<and> orderStatusMapRef (snd (observe viewer d r)) i = Some s"
proof (intro impI, elim conjE)
  assume a: "orderStatusMapRef r i = None" "observes d i s cid"
  show "(oldStatus d = None \<longrightarrow> fst (observe viewer d r) = [])
     \<and> (\<forall>p. oldStatus d = Some p \<longrightarrow>
           fst (observe viewer d r) =
             (if p \<noteq> s \<and> isClientOwn viewer cid
              then [statusNotification (ordersRef r) i p s] else []))
     \<and> orderStatusMapRef (snd (observe viewer d r)) i = Some s"
    using observe_unrecorded [OF a, of viewer] by simp
qed

theorem unrecorded_order_silent_witness:
  "orderStatusMapRef emptyRefs ''o2'' = None
   \<and> observes (ViaPull unseenOrderRow) ''o2'' Completed (Some ''c1'')
   \<and> oldStatus (ViaPull unseenOrderRow) = None
   \<and> fst (observe staffViewer (ViaPull unseenOrderRow) emptyRefs) = []
   \<and> orderStatusMapRef (snd (observe staffViewer (ViaPull unseenOrderRow) emptyRefs)) ''o2''
       = Some Completed
   \<and> orderStatusMapRef emptyRefs ''o1'' = None
   \<and> observes (ViaPush samplePayload) ''o1'' In_progress (Some ''c1'')
   \<and> oldStatus (ViaPush samplePayload) = None
   \<and> fst (observe staffViewer (ViaPush samplePayload) emptyRefs) = []
   \<and> orderStatusMapRef (snd (observe staffViewer (ViaPush samplePayload) emptyRefs)) ''o1''
       = Some In_progress
   \<and> observes (ViaPush unseenPayload) ''o2'' Completed (Some ''c1'')
   \<and> oldStatus (ViaPush unseenPayload) = Some Not_started
   \<and> orderStatusMapRef (snd (observe staffViewer (ViaPush unseenPayload) emptyRefs)) ''o2''
       = Some Completed"
  using unrecorded_order_silent [of emptyRefs "''o2''" "ViaPull unseenOrderRow" Completed
      "Some ''c1''" staffViewer]
    unrecorded_order_silent [of emptyRefs "''o1''" "ViaPush samplePayload" In_progress
      "Some ''c1''" staffViewer]
    unrecorded_order_silent [of emptyRefs "''o2''" "ViaPush unseenPayload" Completed
      "Some ''c1''" staffViewer]
  by (simp add: sample_defs code_defs)



section \<open>Wording of comment notifications\<close>

lemma commentsChannel_wording:
  assumes "pc_id row = Some i" "i \<noteq> []" "pc_order_id row = Some oid" "oid \<noteq> []"
    and "i \<notin> knownCommentIdsRef r" "pc_author_id row \<noteq> Some (p_id viewer)"
  shows "fst (commentsChannel viewer row r) =
     (case (case pc_author_id row of
              Some a \<Rightarrow> if a \<noteq> [] then profilesByIdRef r a else None | None \<Rightarrow> None) of
        Some au \<Rightarrow>
          if p_role viewer \<noteq> Client \<and> p_role au = Client
          then [\<lparr>nc_title = ''Client Message'',
                 nc_message = authorName au @ '' sent a comment on '' @ getOrderCode (ordersRef r) oid,
                 nc_order_id = Some oid\<rparr>]
          else [\<lparr>nc_title = ''New Comment'',
                 nc_message = ''New comment added on '' @ getOrderCode (ordersRef r) oid,
                 nc_order_id = Some oid\<rparr>]
      | None \<Rightarrow> [\<lparr>nc_title = ''New Comment'',
                   nc_message = ''New comment added on '' @ getOrderCode (ordersRef r) oid,
                   nc_order_id = Some oid\<rparr>])"
  using assms by (auto simp: commentsChannel_def Let_def split: option.splits)

lemma client_viewer_comment_generic:
  assumes "p_role viewer = Client" "c \<in> set (fst (deliver viewer d r))"
    and "d = CommentPush row \<or> d = CommentPull item"
  shows "nc_title c = ''New Comment''
         \<and> (\<exists>oid. nc_message c = ''New comment added on '' @ getOrderCode (ordersRef r) oid)"
  using assms by (auto simp: callback_defs Let_def split: option.splits if_splits)

lemma syncCommentRow_wording:
  "cr_id item \<notin> knownCommentIdsRef r \<Longrightarrow> cr_author_id item \<noteq> Some (p_id viewer) \<Longrightarrow>
   fst (syncCommentRow viewer item r) =
     [\<lparr>nc_title = ''New Comment'',
       nc_message = ''New comment added on '' @ getOrderCode (ordersRef r) (cr_order_id item),
       nc_order_id = Some (cr_order_id item)\<rparr>]"
  by (simp add: syncCommentRow_def Let_def)

text \<open>
  Claim C5 at a failing input. The viewer is staff and the comment \<open>m1\<close> on order
  \<open>o1\<close> is written by the client \<open>c1\<close>, whose profile is loaded. Delivered by the
  realtime callback the comment is announced as "Client Message" naming the author;
  delivered by the pull of \<open>syncEvents\<close> the same comment is announced as "New Comment"
  with the generic message, whatever the roles (\<open>syncCommentRow_wording\<close>).
\<close>

theorem pull_comment_wording_differs:
  "fst (commentsChannel staffViewer sampleCommentPush seededRefs) =
     [\<lparr>nc_title = ''Client Message'', nc_message = ''Cleo sent a comment on ORD-1'',
       nc_order_id = Some ''o1''\<rparr>]
   \<and> fst (syncCommentRow staffViewer sampleCommentPull seededRefs) =
     [\<lparr>nc_title = ''New Comment'', nc_message = ''New comment added on ORD-1'',
       nc_order_id = Some ''o1''\<rparr>]"
  by (simp add: sample_defs code_defs)

theorem pull_comment_wording_differs_witness:
  "map nc_title (fst (commentsChannel staffViewer sampleCommentPush seededRefs))
     = [''Client Message'']
   \<and> map nc_title (fst (syncCommentRow staffViewer sampleCommentPull seededRefs))
     = [''New Comment'']"
  using pull_comment_wording_differs by simp

section \<open>Self-authored events\<close>

text \<open>
  Claim C6 as stated fails for status changes: the viewer's own status update comes back
  as a change event without a performer, and both the realtime callback and the pull
  announce it to the viewer.
\<close>

theorem own_status_update_notifies:
  "fst (ordersChannel staffViewer (handleStatusUpdate sampleOrder In_progress) seededRefs) =
     [\<lparr>nc_title = ''Order Status Changed'',
       nc_message = ''ORD-1 moved from Not Started to In Progress'',
       nc_order_id = Some ''o1''\<rparr>]
   \<and> fst (syncOrderRow staffViewer sampleOrderRow seededRefs) =
     [\<lparr>nc_title = ''Order Status Changed'',
       nc_message = ''ORD-1 moved from Not Started to In Progress'',
       nc_order_id = Some ''o1''\<rparr>]"
  by (simp add: sample_defs code_defs)

text \<open>
  Claim C6, amended. A comment whose \<open>author_id\<close> and a file whose \<open>uploaded_by\<close> is the
  viewer's id makes no \<open>pushNotification\<close> invocation, by the realtime callback or by the
  pull, in any state of the references.
\<close>

theorem own_comment_or_file_silent:
  "actor d = Some (p_id viewer) \<longrightarrow> fst (deliver viewer d r) = []"
  by (cases d) (auto simp: callback_defs Let_def split: option.splits if_splits)

theorem own_comment_or_file_silent_witness:
  "actor (CommentPush sampleCommentPush) = Some (p_id clientViewer)
   \<and> fst (deliver clientViewer (CommentPush sampleCommentPush) seededRefs) = []
   \<and> actor (CommentPull sampleCommentPull) = Some (p_id clientViewer)
   \<and> fst (deliver clientViewer (CommentPull sampleCommentPull) seededRefs) = []
   \<and> actor (FilePush sampleFilePush) = Some (p_id clientViewer)
   \<and> fst (deliver clientViewer (FilePush sampleFilePush) seededRefs) = []
   \<and> actor (FilePull sampleFilePull) = Some (p_id clientViewer)
   \<and> fst (deliver clientViewer (FilePull sampleFilePull) seededRefs) = []"
  using own_comment_or_file_silent [of "CommentPush sampleCommentPush" clientViewer seededRefs]
    own_comment_or_file_silent [of "CommentPull sampleCommentPull" clientViewer seededRefs]
    own_comment_or_file_silent [of "FilePush sampleFilePush" clientViewer seededRefs]
    own_comment_or_file_silent [of "FilePull sampleFilePull" clientViewer seededRefs]
  by (simp add: sample_defs)

section \<open>Opening a notification\<close>

lemma mark_distinct:
  "distinct (map n_id ns) \<Longrightarrow> item \<in> set ns \<Longrightarrow>
   map (\<lambda>n. if n_id n = n_id item then n\<lparr>n_read := True\<rparr> else n) ns
     = map (\<lambda>n. if n = item then n\<lparr>n_read := True\<rparr> else n) ns"
  by (rule map_cong) (auto simp: distinct_map inj_on_def)

lemma open_notifications:
  "notifications (snd (openNotification fetchOrder item st))
     = map (\<lambda>n. if n_id n = n_id item then n\<lparr>n_read := True\<rparr> else n) (notifications st)"
  by (simp add: openNotification_def Let_def split: option.splits)

lemma open_fetches:
  "n_order_id item = Some oid \<Longrightarrow> oid \<noteq> [] \<Longrightarrow>
   fst (openNotification fetchOrder item st)
     = (if list_ex (\<lambda>ord. o_id ord = oid) (orders_ref st) then [] else [oid])"
  by (simp add: openNotification_def Let_def)

lemma open_orders:
  "n_order_id item = Some oid \<Longrightarrow> oid \<noteq> [] \<Longrightarrow>
   orders (snd (openNotification fetchOrder item st))
     = (if list_ex (\<lambda>ord. o_id ord = oid) (orders_ref st) then orders st
        else case fetchOrder oid of
               Some d \<Rightarrow> if list_ex (\<lambda>ord. o_id ord = o_id d) (orders st) then orders st
                         else d # orders st
             | None \<Rightarrow> orders st)"
  by (simp add: openNotification_def mergeOrder_def Let_def split: option.splits)

lemma open_selects:
  "n_order_id item = Some oid \<Longrightarrow> oid \<noteq> [] \<Longrightarrow>
   selectedOrderId (snd (openNotification fetchOrder item st)) = Some oid"
  by (simp add: openNotification_def Let_def)

lemma open_orders_cases:
  "orders (snd (openNotification fetchOrder item st)) = orders st
   \<or> (\<exists>d. orders (snd (openNotification fetchOrder item st)) = d # orders st
          \<and> \<not> list_ex (\<lambda>ord. o_id ord = o_id d) (orders st))"
  by (auto simp: openNotification_def mergeOrder_def Let_def split: option.splits)

lemma open_no_duplicate:
  "length (filter (\<lambda>ord. o_id ord = j) (orders (snd (openNotification fetchOrder item st))))
     \<le> max 1 (length (filter (\<lambda>ord. o_id ord = j) (orders st)))"
proof -
  from open_orders_cases [of fetchOrder item st] show ?thesis
  proof
    assume "orders (snd (openNotification fetchOrder item st)) = orders st"
    then show ?thesis by simp
  next
    assume "\<exists>d. orders (snd (openNotification fetchOrder item st)) = d # orders st
          \<and> \<not> list_ex (\<lambda>ord. o_id ord = o_id d) (orders st)"
    then obtain d where d: "orders (snd (openNotification fetchOrder item st)) = d # orders st"
      "\<not> list_ex (\<lambda>ord. o_id ord = o_id d) (orders st)" by blast
    show ?thesis
    proof (cases "o_id d = j")
      case True
      with d(2) have "filter (\<lambda>ord. o_id ord = j) (orders st) = []"
        by (auto simp: list_ex_iff filter_empty_conv)
      with d(1) True show ?thesis by simp
    next
      case False
      with d(1) show ?thesis by simp
    qed
  qed
qed

lemma find_None_list_ex: "\<not> list_ex P xs \<Longrightarrow> find P xs = None"
  by (simp add: find_None_iff list_ex_iff)

text \<open>
  Claim C8 as stated fails twice. The lines that select the order (\<open>setSelectedPage\<close>,
  \<open>setSelectedOrderId\<close>, \<open>setSidebarOpen\<close>, lines 338-340) run whatever the fetch
  returned: with the view of o1 open, opening a notification for an order that the
  backend no longer returns selects that order's id, which closes the view of o1, and from
  the reports page it switches to the dashboard. And entries are matched by id: when two
  entries share an id, opening one marks both read.
\<close>

theorem openNotification_navigates_regardless:
  "selectedOrder loadedState = Some sampleOrder
   \<and> n_order_id newOrderEntry = Some ''o2''
   \<and> openNotification (\<lambda>i. None) newOrderEntry loadedState =
       ([''o2''], loadedState\<lparr>notifications := [newOrderEntry\<lparr>n_read := True\<rparr>],
                              selectedPage := Dashboard, selectedOrderId := Some ''o2'',
                              sidebarOpen := False, isNotificationOpen := False\<rparr>)
   \<and> selectedOrderId (snd (openNotification (\<lambda>i. None) newOrderEntry loadedState)) = Some ''o2''
   \<and> selectedOrder (snd (openNotification (\<lambda>i. None) newOrderEntry loadedState)) = None
   \<and> selectedPage sampleState = Reports
   \<and> selectedPage (snd (openNotification (\<lambda>i. None) (entry ''n1'' False) sampleState)) = Dashboard
   \<and> notifications (snd (openNotification (\<lambda>i. None) (entry ''n1'' False)
         (sampleState\<lparr>notifications := [entry ''n1'' False, twinEntry]\<rparr>)))
       = [entry ''n1'' True, twinEntry\<lparr>n_read := True\<rparr>]"
  by (simp add: sample_defs openNotification_def mergeOrder_def selectedOrder_def)

text \<open>
  Claim C8, amended. \<open>openNotification\<close> sets the read flag of every entry that has the
  id of the opened one and changes no other entry; in an inbox with pairwise distinct ids
  that is exactly the opened entry. When the entry carries an order id, the order is
  fetched exactly once if no order of \<open>ordersRef.current\<close> has that id and not at all
  otherwise, a fetched order is put in front of the order list unless an order with its id
  is already there, and no id gains a second entry. Whatever the fetch returned,
  \<open>selectedPage\<close> becomes the dashboard and \<open>selectedOrderId\<close> the order id. When the
  fetch yields nothing for an order that is not loaded, the order list is unchanged, the
  entry is read, and no loaded order has the selected id, so \<open>selectedOrder\<close> is null and
  no order view is shown.
\<close>

theorem openNotification_effects:
  "notifications (snd (openNotification fetchOrder item st))
     = map (\<lambda>n. if n_id n = n_id item then n\<lparr>n_read := True\<rparr> else n) (notifications st)
   \<and> (item \<in> set (notifications st) \<and> distinct (map n_id (notifications st)) \<longrightarrow>
      notifications (snd (openNotification fetchOrder item st))
        = map (\<lambda>n. if n = item then n\<lparr>n_read := True\<rparr> else n) (notifications st))
   \<and> (n_order_id item = Some oid \<and> oid \<noteq> [] \<longrightarrow>
        fst (openNotification fetchOrder item st)
          = (if list_ex (\<lambda>ord. o_id ord = oid) (orders_ref st) then [] else [oid])
        \<and> orders (snd (openNotification fetchOrder item st))
          = (if list_ex (\<lambda>ord. o_id ord = oid) (orders_ref st) then orders st
             else case fetchOrder oid of
                    Some d \<Rightarrow> if list_ex (\<lambda>ord. o_id ord = o_id d) (orders st) then orders st
                              else d # orders st
                  | None \<Rightarrow> orders st)
        \<and> selectedPage (snd (openNotification fetchOrder item st)) = Dashboard
        \<and> selectedOrderId (snd (openNotification fetchOrder item st)) = Some oid)
   \<and> (\<forall>j. length (filter (\<lambda>ord. o_id ord = j) (orders (snd (openNotification fetchOrder item st))))
            \<le> max 1 (length (filter (\<lambda>ord. o_id ord = j) (orders st))))
   \<and> (n_order_id item = Some oid \<and> oid \<noteq> [] \<and> fetchOrder oid = None
        \<and> \<not> list_ex (\<lambda>ord. o_id ord = oid) (orders_ref st)
        \<and> \<not> list_ex (\<lambda>ord. o_id ord = oid) (orders st) \<longrightarrow>
        fst (openNotification fetchOrder item st) = [oid]
        \<and> orders (snd (openNotification fetchOrder item st)) = orders st
        \<and> selectedPage (snd (openNotification fetchOrder item st)) = Dashboard
        \<and> selectedOrderId (snd (openNotification fetchOrder item st)) = Some oid
        \<and> selectedOrder (snd (openNotification fetchOrder item st)) = None
        \<and> list_all (\<lambda>n. n_id n = n_id item \<longrightarrow> n_read n)
             (notifications (snd (openNotification fetchOrder item st))))"
proof (intro conjI impI allI; (elim conjE)?)
  show "notifications (snd (openNotification fetchOrder item st))
     = map (\<lambda>n. if n_id n = n_id item then n\<lparr>n_read := True\<rparr> else n) (notifications st)"
    by (rule open_notifications)
next
  assume "item \<in> set (notifications st)" "distinct (map n_id (notifications st))"
  then show "notifications (snd (openNotification fetchOrder item st))
        = map (\<lambda>n. if n = item then n\<lparr>n_read := True\<rparr> else n) (notifications st)"
    using mark_distinct [of "notifications st" item] by (simp add: open_notifications)
next
  assume "n_order_id item = Some oid" "oid \<noteq> []"
  then show "fst (openNotification fetchOrder item st)
          = (if list_ex (\<lambda>ord. o_id ord = oid) (orders_ref st) then [] else [oid])"
    by (rule open_fetches)
next
  assume "n_order_id item = Some oid" "oid \<noteq> []"
  then show "orders (snd (openNotification fetchOrder item st))
          = (if list_ex (\<lambda>ord. o_id ord = oid) (orders_ref st) then orders st
             else case fetchOrder oid of
                    Some d \<Rightarrow> if list_ex (\<lambda>ord. o_id ord = o_id d) (orders st) then orders st
                              else d # orders st
                  | None \<Rightarrow> orders st)"
    by (rule open_orders)
next
  assume "n_order_id item = Some oid" "oid \<noteq> []"
  then show "selectedPage (snd (openNotification fetchOrder item st)) = Dashboard"
    by (simp add: openNotification_def Let_def)
next
  assume "n_order_id item = Some oid" "oid \<noteq> []"
  then show "selectedOrderId (snd (openNotification fetchOrder item st)) = Some oid"
    by (rule open_selects)
next
  fix j
  show "length (filter (\<lambda>ord. o_id ord = j) (orders (snd (openNotification fetchOrder item st))))
            \<le> max 1 (length (filter (\<lambda>ord. o_id ord = j) (orders st)))"
    by (rule open_no_duplicate)
next
  assume a: "n_order_id item = Some oid" "oid \<noteq> []" "fetchOrder oid = None"
    "\<not> list_ex (\<lambda>ord. o_id ord = oid) (orders_ref st)"
  then show "fst (openNotification fetchOrder item st) = [oid]"
    by (simp add: open_fetches)
next
  assume a: "n_order_id item = Some oid" "oid \<noteq> []" "fetchOrder oid = None"
  then show "orders (snd (openNotification fetchOrder item st)) = orders st"
    by (simp add: open_orders)
next
  assume "n_order_id item = Some oid" "oid \<noteq> []"
  then show "selectedPage (snd (openNotification fetchOrder item st)) = Dashboard"
    by (simp add: openNotification_def Let_def)
next
  assume "n_order_id item = Some oid" "oid \<noteq> []"
  then show "selectedOrderId (snd (openNotification fetchOrder item st)) = Some oid"
    by (rule open_selects)
next
  assume a: "n_order_id item = Some oid" "oid \<noteq> []" "fetchOrder oid = None"
    "\<not> list_ex (\<lambda>ord. o_id ord = oid) (orders st)"
  then have "orders (snd (openNotification fetchOrder item st)) = orders st"
    by (simp add: open_orders)
  then show "selectedOrder (snd (openNotification fetchOrder item st)) = None"
    using a open_selects [OF a(1) a(2), of fetchOrder st]
    by (simp add: selectedOrder_def find_None_list_ex)
next
  show "list_all (\<lambda>n. n_id n = n_id item \<longrightarrow> n_read n)
             (notifications (snd (openNotification fetchOrder item st)))"
    by (auto simp: open_notifications list_all_iff)
qed


theorem openNotification_effects_witness:
  "entry ''n1'' False \<in> set (notifications sampleState)
   \<and> distinct (map n_id (notifications sampleState))
   \<and> n_order_id (entry ''n1'' False) = Some ''o1'' \<and> ''o1'' \<noteq> []
   \<and> \<not> list_ex (\<lambda>ord. o_id ord = ''o1'') (orders_ref sampleState)
   \<and> \<not> list_ex (\<lambda>ord. o_id ord = ''o1'') (orders sampleState)
   \<and> openNotification sampleBackend (entry ''n1'' False) sampleState =
       ([''o1''], sampleState\<lparr>notifications := [entry ''n1'' True, entry ''n2'' False],
                              orders := [sampleOrder], selectedPage := Dashboard,
                              selectedOrderId := Some ''o1'', sidebarOpen := False,
                              isNotificationOpen := False\<rparr>)
   \<and> (\<lambda>i. None) ''o1'' = (None :: Order option)
   \<and> openNotification (\<lambda>i. None) (entry ''n1'' False) sampleState =
       ([''o1''], sampleState\<lparr>notifications := [entry ''n1'' True, entry ''n2'' False],
                              selectedPage := Dashboard,
                              selectedOrderId := Some ''o1'', sidebarOpen := False,
                              isNotificationOpen := False\<rparr>)
   \<and> selectedOrder (snd (openNotification (\<lambda>i. None) (entry ''n1'' False) sampleState)) = None"
  using openNotification_effects [of sampleBackend "entry ''n1'' False" sampleState "''o1''"]
    openNotification_effects [of "\<lambda>i. None" "entry ''n1'' False" sampleState "''o1''"]
  by (simp add: sample_defs openNotification_def mergeOrder_def selectedOrder_def)

end
